theory Spec2Isabelle
  imports Main
begin

section \<open>Data model\<close>

text \<open>
  The views of \<^verbatim>\<open>userpypi/views/packages.py\<close> and \<^verbatim>\<open>userpypi/views/releases.py\<close> read
  and write rows of a relational store through the ORM.  A row is a record; a foreign key is
  the primary key of the row it points to.  \<open>organization\<close> is the flag the views read
  as \<^verbatim>\<open>owner.profile.organization\<close>; \<open>package_info\<close> is the multi-valued dictionary
  of a release: each key once, with the list of its values.  \<open>rel_private\<close> is the field
  the release views name as \<^verbatim>\<open>private\<close> in their filter.
\<close>

record user =
  uid :: nat
  username :: string
  organization :: bool

record package =
  pkg_id :: nat
  pkg_owner :: nat
  pkg_name :: string
  pkg_private :: bool

record release =
  rel_id :: nat
  rel_package :: nat
  rel_version :: string
  rel_private :: bool
  rel_hidden :: bool
  metadata_version :: string
  package_info :: "(string \<times> string list) list"

text \<open>
  The store.  \<open>user_queries\<close> counts the lookups \<^verbatim>\<open>User.objects.get\<close> has run, so that
  a resolver that answers from its cache is seen to leave the store alone.
\<close>

record distribution =
  dist_id :: nat
  dist_release :: nat
  dist_uploader :: nat
  dist_comment :: string
  dist_content :: string

record store =
  users :: "user list"
  packages :: "package list"
  releases :: "release list"
  distributions :: "distribution list"
  user_queries :: nat

text \<open>The exceptions the views raise or let through, as values.\<close>

datatype error =
    Http404 string
  | DoesNotExist string
  | MultipleObjectsReturned string
  | AttributeError string
  | UnboundLocalError string
  | NameError string
  | KeyError string
  | TypeError string
  | ImproperlyConfigured string

text \<open>
  \<^verbatim>\<open>except ObjectDoesNotExist\<close> catches the \<^verbatim>\<open>DoesNotExist\<close> of every model, since each is
  a subclass of it, and nothing else.
\<close>

fun is_ObjectDoesNotExist :: "error \<Rightarrow> bool" where
  "is_ObjectDoesNotExist (DoesNotExist m) = True"
| "is_ObjectDoesNotExist e = False"

text \<open>
  \<^verbatim>\<open>QuerySet.get()\<close>: the only row, \<^verbatim>\<open>DoesNotExist\<close> when there is none,
  \<^verbatim>\<open>MultipleObjectsReturned\<close> when there are several.
\<close>

fun queryset_get :: "string \<Rightarrow> 'a list \<Rightarrow> error + 'a" where
  "queryset_get m [] = Inl (DoesNotExist m)"
| "queryset_get m [x] = Inr x"
| "queryset_get m (x # y # ys) = Inl (MultipleObjectsReturned m)"

text \<open>\<^verbatim>\<open>User.objects.get(username=name)\<close>: one lookup against the store.\<close>

definition User_objects_get :: "string \<Rightarrow> store \<Rightarrow> (error + user) \<times> store" where
  "User_objects_get name s =
     (queryset_get ''User'' (filter (\<lambda>u. username u = name) (users s)),
      s\<lparr>user_queries := Suc (user_queries s)\<rparr>)"

text \<open>
  Equality of model instances is equality of primary keys; an instance is never equal to
  \<^verbatim>\<open>None\<close>.  \<open>user_ne\<close> is \<^verbatim>\<open>request.user != owner\<close> where the owner may be \<^verbatim>\<open>None\<close>.
\<close>

definition user_eq :: "user \<Rightarrow> user \<Rightarrow> bool" where
  "user_eq a b = (uid a = uid b)"

fun user_ne :: "user \<Rightarrow> user option \<Rightarrow> bool" where
  "user_ne r None = True"
| "user_ne r (Some u) = (\<not> user_eq r u)"

section \<open>The view object\<close>

text \<open>
  The state of one class-based view during one request: the attribute \<^verbatim>\<open>self.owner\<close>
  (\<^verbatim>\<open>None\<close> in the class), the routing parameters \<^verbatim>\<open>self.kwargs\<close>, the requesting user,
  and the attributes \<^verbatim>\<open>redirect\<close>, \<^verbatim>\<open>simple\<close> and \<^verbatim>\<open>doap\<close> of the detail views.
\<close>

record view =
  owner :: "user option"
  kwargs_owner :: "string option"
  kwargs_package :: "string option"
  kwargs_version :: "string option"
  kwargs_doap :: "bool option"
  request_user :: user
  redirect :: string
  simple :: bool
  doap :: bool

text \<open>A view as \<^verbatim>\<open>as_view\<close> makes it for a request: the class attributes, then the request.\<close>

definition new_view ::
  "user \<Rightarrow> string option \<Rightarrow> string option \<Rightarrow> string option \<Rightarrow> bool option \<Rightarrow> view" where
  "new_view r ko kp kv kd =
     \<lparr>owner = None, kwargs_owner = ko, kwargs_package = kp, kwargs_version = kv,
      kwargs_doap = kd, request_user = r, redirect = [], simple = False, doap = False\<rparr>"

section \<open>Ownership resolver\<close>

text \<open>
  \<^verbatim>\<open>OwnerObjectMixin.get_owner\<close> (packages.py).  \<^verbatim>\<open>self.owner\<close> holds \<^verbatim>\<open>None\<close> or a
  \<^verbatim>\<open>User\<close>, so the test \<^verbatim>\<open>owner and issubclass(owner.__class__, User)\<close> is the case
  \<open>Some u\<close>.  The lookup is not guarded: an unknown username lets \<^verbatim>\<open>User.DoesNotExist\<close>
  through, before \<^verbatim>\<open>self.owner\<close> is assigned.
\<close>

definition OwnerObjectMixin_get_owner ::
  "view \<Rightarrow> store \<Rightarrow> (error + user option) \<times> view \<times> store" where
  "OwnerObjectMixin_get_owner v s =
     (case owner v of
        Some u \<Rightarrow> (Inr (Some u), v, s)
      | None \<Rightarrow>
          (case kwargs_owner v of
             Some name \<Rightarrow>
               (case User_objects_get name s of
                  (Inr u, s') \<Rightarrow> (Inr (Some u), v\<lparr>owner := Some u\<rparr>, s')
                | (Inl e, s') \<Rightarrow> (Inl e, v, s'))
           | None \<Rightarrow> (Inr None, v\<lparr>owner := None\<rparr>, s)))"

text \<open>
  \<^verbatim>\<open>ReleaseOwnerObjectMixin.get_owner\<close> (releases.py): \<^verbatim>\<open>User.DoesNotExist\<close> becomes
  \<^verbatim>\<open>Http404\<close>, and so does an absent path owner.
\<close>

definition ReleaseOwnerObjectMixin_get_owner ::
  "view \<Rightarrow> store \<Rightarrow> (error + user) \<times> view \<times> store" where
  "ReleaseOwnerObjectMixin_get_owner v s =
     (case owner v of
        Some u \<Rightarrow> (Inr u, v, s)
      | None \<Rightarrow>
          (case kwargs_owner v of
             Some name \<Rightarrow>
               (case User_objects_get name s of
                  (Inr u, s') \<Rightarrow> (Inr u, v\<lparr>owner := Some u\<rparr>, s')
                | (Inl (DoesNotExist m), s') \<Rightarrow> (Inl (Http404 []), v, s')
                | (Inl e, s') \<Rightarrow> (Inl e, v, s'))
           | None \<Rightarrow> (Inl (Http404 []), v, s)))"

section \<open>Visibility filter\<close>

text \<open>
  \<^verbatim>\<open>Package.objects.filter(**params)\<close> for the two shapes of \<^verbatim>\<open>params\<close> the package
  views build: \<^verbatim>\<open>owner\<close> always, \<^verbatim>\<open>private\<close> when given.  Every package has an owner, so
  \<^verbatim>\<open>owner=None\<close> selects nothing.
\<close>

fun Package_objects_filter :: "user option \<Rightarrow> bool option \<Rightarrow> store \<Rightarrow> package list" where
  "Package_objects_filter None private_param s = []"
| "Package_objects_filter (Some ow) private_param s =
     filter (\<lambda>p. pkg_owner p = uid ow \<and>
                 (case private_param of None \<Rightarrow> True | Some b \<Rightarrow> pkg_private p = b))
            (packages s)"

text \<open>
  \<^verbatim>\<open>OwnerObjectMixin.get_queryset\<close> (packages.py).  With no owner resolved the comparison
  \<^verbatim>\<open>request.user != None\<close> is true and \<^verbatim>\<open>self.owner.profile\<close> fails on \<^verbatim>\<open>None\<close>.
\<close>

definition OwnerObjectMixin_get_queryset ::
  "view \<Rightarrow> store \<Rightarrow> (error + package list) \<times> view \<times> store" where
  "OwnerObjectMixin_get_queryset v s =
     (case OwnerObjectMixin_get_owner v s of
        (Inl e, v', s') \<Rightarrow> (Inl e, v', s')
      | (Inr got, v', s') \<Rightarrow>
          (if user_ne (request_user v') got then
             (case owner v' of
                None \<Rightarrow> (Inl (AttributeError ''profile''), v', s')
              | Some ow \<Rightarrow>
                  (if organization ow
                   then (Inr (Package_objects_filter (owner v') None s'), v', s')
                   else (Inr (Package_objects_filter (owner v') (Some False) s'), v', s')))
           else (Inr (Package_objects_filter (owner v') None s'), v', s')))"

text \<open>
  The joins of the release filters: the package row of a release, and the owner row of a
  package.  A release whose package (or whose package's owner) is not in the store matches
  no filter that goes through it.
\<close>

definition release_package :: "store \<Rightarrow> release \<Rightarrow> package option" where
  "release_package s r = find (\<lambda>p. pkg_id p = rel_package r) (packages s)"

definition package_owner :: "store \<Rightarrow> package \<Rightarrow> user option" where
  "package_owner s p = find (\<lambda>u. uid u = pkg_owner p) (users s)"

text \<open>
  The two shapes of \<^verbatim>\<open>params\<close> of the release views.
  \<^verbatim>\<open>dict(package__owner__username=self.owner)\<close> compares the username of the package's
  owner with the text of \<^verbatim>\<open>self.owner\<close>, which is its username;
  \<^verbatim>\<open>dict(package__owner=self.request.user, private=False)\<close> asks for the releases of the
  packages that the requesting user owns.
\<close>

datatype release_params =
    By_owner_username string
  | By_owner_private user bool

fun release_matches :: "store \<Rightarrow> release_params \<Rightarrow> release \<Rightarrow> bool" where
  "release_matches s (By_owner_username n) r =
     (case release_package s r of
        None \<Rightarrow> False
      | Some p \<Rightarrow> (case package_owner s p of None \<Rightarrow> False | Some u \<Rightarrow> username u = n))"
| "release_matches s (By_owner_private u b) r =
     (case release_package s r of
        None \<Rightarrow> False
      | Some p \<Rightarrow> pkg_owner p = uid u \<and> rel_private r = b)"

definition Release_objects_filter :: "release_params \<Rightarrow> store \<Rightarrow> release list" where
  "Release_objects_filter params s = filter (release_matches s params) (releases s)"

text \<open>
  \<^verbatim>\<open>ReleaseOwnerObjectMixin.get_queryset\<close> (releases.py).  The \<^verbatim>\<open>if\<close> has no \<^verbatim>\<open>else\<close>:
  when the requesting user is the owner, \<^verbatim>\<open>params\<close> was never assigned and the last line
  raises \<^verbatim>\<open>UnboundLocalError\<close>.
\<close>

definition ReleaseOwnerObjectMixin_get_queryset ::
  "view \<Rightarrow> store \<Rightarrow> (error + release list) \<times> view \<times> store" where
  "ReleaseOwnerObjectMixin_get_queryset v s =
     (case ReleaseOwnerObjectMixin_get_owner v s of
        (Inl e, v', s') \<Rightarrow> (Inl e, v', s')
      | (Inr got, v', s') \<Rightarrow>
          (if user_ne (request_user v') (Some got) then
             (case owner v' of
                None \<Rightarrow> (Inl (AttributeError ''profile''), v', s')
              | Some ow \<Rightarrow>
                  (if organization ow
                   then (Inr (Release_objects_filter (By_owner_username (username ow)) s'),
                         v', s')
                   else (Inr (Release_objects_filter
                                (By_owner_private (request_user v') False) s'), v', s')))
           else (Inl (UnboundLocalError ''params''), v', s')))"

section \<open>Resource locator\<close>

text \<open>
  The options of \<^verbatim>\<open>userpypi.settings\<close> and \<^verbatim>\<open>django.conf.settings\<close> the views read.
  \<open>METADATA_FORMS\<close> maps a metadata version to the import path of its form class.
\<close>

record settings =
  PROXY_MISSING :: bool
  PROXY_BASE_URL :: string
  METADATA_FORMS :: "(string \<times> string) list"
  DEFAULT_CONTENT_TYPE :: string

text \<open>\<^verbatim>\<open>s.rstrip(c)\<close> for a single character, and \<^verbatim>\<open>'%s' % x\<close> for a string or \<^verbatim>\<open>None\<close>.\<close>

definition rstrip :: "char \<Rightarrow> string \<Rightarrow> string" where
  "rstrip c s = rev (dropWhile (\<lambda>x. x = c) (rev s))"

fun percent_s :: "string option \<Rightarrow> string" where
  "percent_s None = ''None''"
| "percent_s (Some x) = x"

text \<open>
  \<^verbatim>\<open>queryset.filter(name=package)\<close> with the value of \<^verbatim>\<open>self.kwargs.get('package', None)\<close>:
  \<^verbatim>\<open>None\<close> asks for rows without a name, and there are none.
\<close>

fun filter_name :: "string option \<Rightarrow> package list \<Rightarrow> package list" where
  "filter_name None qs = []"
| "filter_name (Some n) qs = filter (\<lambda>p. pkg_name p = n) qs"

text \<open>
  What the \<^verbatim>\<open>except ObjectDoesNotExist\<close> clause of \<^verbatim>\<open>PackageDetailView.get_object\<close> does
  with an exception \<open>e\<close> raised in the \<^verbatim>\<open>try\<close> block.  \<open>bound\<close> says whether \<^verbatim>\<open>queryset\<close>
  had been assigned by then: the message of the \<^verbatim>\<open>Http404\<close> reads it.
\<close>

definition package_miss ::
  "settings \<Rightarrow> string \<Rightarrow> bool \<Rightarrow> error \<Rightarrow> view \<Rightarrow> store \<Rightarrow>
   (error + package option) \<times> view \<times> store" where
  "package_miss cfg verbose_name bound e v s =
     (if is_ObjectDoesNotExist e then
        (if PROXY_MISSING cfg then
           (Inr None,
            v\<lparr>redirect := rstrip CHR ''/'' (PROXY_BASE_URL cfg) @ ''/'' @
                            percent_s (kwargs_package v) @ ''/''\<rparr>, s)
         else if bound then
           (Inl (Http404 (''No '' @ verbose_name @ '' found matching the query'')), v, s)
         else (Inl (UnboundLocalError ''queryset''), v, s))
      else (Inl e, v, s))"

text \<open>
  \<^verbatim>\<open>PackageDetailView.get_object\<close>.  \<open>verbose_name\<close> is
  \<^verbatim>\<open>queryset.model._meta.verbose_name\<close>, set in the models module.  The call of
  \<^verbatim>\<open>get_queryset\<close> is inside the \<^verbatim>\<open>try\<close>, so the \<^verbatim>\<open>User.DoesNotExist\<close> of an unknown
  owner is caught there too.
\<close>

definition PackageDetailView_get_object ::
  "settings \<Rightarrow> string \<Rightarrow> view \<Rightarrow> store \<Rightarrow> (error + package option) \<times> view \<times> store" where
  "PackageDetailView_get_object cfg verbose_name v s =
     (case OwnerObjectMixin_get_queryset v s of
        (Inl e, v', s') \<Rightarrow> package_miss cfg verbose_name False e v' s'
      | (Inr qs, v', s') \<Rightarrow>
          (case queryset_get ''Package'' (filter_name (kwargs_package v') qs) of
             Inr obj \<Rightarrow> (Inr (Some obj), v', s')
           | Inl e \<Rightarrow> package_miss cfg verbose_name True e v' s'))"

text \<open>Responses, and the template context of a detail view.\<close>

datatype 'c response =
    HttpResponseRedirect string
  | TemplateResponse "string list" "string option" 'c

record 'a detail_context =
  ctx_object :: 'a
  ctx_owner :: "user option"
  ctx_is_owner :: bool

text \<open>
  \<^verbatim>\<open>OwnerObjectMixin.get_context_data\<close>.  \<^verbatim>\<open>is_owner\<close> compares \<^verbatim>\<open>self.owner\<close>, a
  \<^verbatim>\<open>User\<close> or \<^verbatim>\<open>None\<close>, with a username, a string: never equal.
\<close>

definition OwnerObjectMixin_get_context_data ::
  "'a \<Rightarrow> view \<Rightarrow> store \<Rightarrow> (error + 'a detail_context) \<times> view \<times> store" where
  "OwnerObjectMixin_get_context_data obj v s =
     (case OwnerObjectMixin_get_owner v s of
        (Inl e, v', s') \<Rightarrow> (Inl e, v', s')
      | (Inr got, v', s') \<Rightarrow>
          (Inr \<lparr>ctx_object = obj, ctx_owner = got, ctx_is_owner = False\<rparr>, v', s'))"

definition PackageDetailView_get_template_names :: "view \<Rightarrow> string list" where
  "PackageDetailView_get_template_names v =
     (if simple v then [''userpypi/package_detail_simple.html'']
      else if doap v then [''userpypi/package_doap.xml'']
      else [''userpypi/package_detail.html''])"

text \<open>
  \<^verbatim>\<open>PackageDetailView.render_to_response\<close>: a redirect set by \<^verbatim>\<open>get_object\<close> wins;
  otherwise the \<^verbatim>\<open>doap\<close> flag of the route is read and the template rendered.
\<close>

definition PackageDetailView_render_to_response ::
  "'c \<Rightarrow> view \<Rightarrow> 'c response \<times> view" where
  "PackageDetailView_render_to_response ctx v =
     (if redirect v \<noteq> [] then (HttpResponseRedirect (redirect v), v)
      else
        (let v' = v\<lparr>doap := (case kwargs_doap v of None \<Rightarrow> False | Some b \<Rightarrow> b)\<rparr>
         in (TemplateResponse (PackageDetailView_get_template_names v')
               (if doap v' then Some ''text/xml'' else None) ctx, v')))"

text \<open>
  The \<^verbatim>\<open>get\<close> of a detail view, as the framework runs it: \<^verbatim>\<open>get_object\<close>, then
  \<^verbatim>\<open>get_context_data\<close>, then \<^verbatim>\<open>render_to_response\<close>.  This is \<open>locate_package\<close>.
\<close>

definition PackageDetailView_get ::
  "settings \<Rightarrow> string \<Rightarrow> view \<Rightarrow> store \<Rightarrow>
   (error + package option detail_context response) \<times> view \<times> store" where
  "PackageDetailView_get cfg verbose_name v s =
     (case PackageDetailView_get_object cfg verbose_name v s of
        (Inl e, v1, s1) \<Rightarrow> (Inl e, v1, s1)
      | (Inr obj, v1, s1) \<Rightarrow>
          (case OwnerObjectMixin_get_context_data obj v1 s1 of
             (Inl e, v2, s2) \<Rightarrow> (Inl e, v2, s2)
           | (Inr ctx, v2, s2) \<Rightarrow>
               (case PackageDetailView_render_to_response ctx v2 of
                  (resp, v3) \<Rightarrow> (Inr resp, v3, s2))))"

text \<open>
  \<^verbatim>\<open>queryset.filter(package__name=package)\<close> on releases: the package row of the release
  has that name.
\<close>

fun filter_package_name :: "store \<Rightarrow> string option \<Rightarrow> release list \<Rightarrow> release list" where
  "filter_package_name s None qs = []"
| "filter_package_name s (Some n) qs =
     filter (\<lambda>r. case release_package s r of None \<Rightarrow> False | Some p \<Rightarrow> pkg_name p = n) qs"

text \<open>
  The \<^verbatim>\<open>except ObjectDoesNotExist\<close> clause of \<^verbatim>\<open>ReleaseDetailView.get_object\<close>.  It builds
  its \<^verbatim>\<open>Http404\<close> from \<^verbatim>\<open>_(u"No ... found matching the query")\<close>, and releases.py neither
  imports nor defines \<^verbatim>\<open>_\<close>: evaluating the argument raises \<^verbatim>\<open>NameError\<close>.
\<close>

definition release_miss :: "error \<Rightarrow> error" where
  "release_miss e = (if is_ObjectDoesNotExist e then NameError ''_'' else e)"

text \<open>
  \<^verbatim>\<open>ReleaseDetailView.get_object\<close>.  It reads \<^verbatim>\<open>package\<close> from the route and nothing
  else: the \<^verbatim>\<open>version\<close> of the route takes no part in the lookup.
\<close>

definition ReleaseDetailView_get_object ::
  "view \<Rightarrow> store \<Rightarrow> (error + release) \<times> view \<times> store" where
  "ReleaseDetailView_get_object v s =
     (case ReleaseOwnerObjectMixin_get_queryset v s of
        (Inl e, v', s') \<Rightarrow> (Inl (release_miss e), v', s')
      | (Inr qs, v', s') \<Rightarrow>
          (case queryset_get ''Release'' (filter_package_name s' (kwargs_package v') qs) of
             Inr obj \<Rightarrow> (Inr obj, v', s')
           | Inl e \<Rightarrow> (Inl (release_miss e), v', s')))"

section \<open>Metadata form dispatcher\<close>

text \<open>\<^verbatim>\<open>sep.join(values)\<close>.\<close>

fun join :: "string \<Rightarrow> string list \<Rightarrow> string" where
  "join sep [] = []"
| "join sep [x] = x"
| "join sep (x # y # ys) = x @ sep @ join sep (y # ys)"

text \<open>
  A value of the form's \<^verbatim>\<open>initial\<close> dictionary: the list of values of a multi-valued
  key, or one string.
\<close>

datatype initial_value = Values "string list" | Text string

definition multivalue :: "string list" where
  "multivalue = [''classifier'']"

text \<open>
  The loop of \<^verbatim>\<open>manage_metadata\<close> over \<^verbatim>\<open>release.package_info.iterlists()\<close> that fills
  \<^verbatim>\<open>initial\<close>, one assignment \<^verbatim>\<open>initial[key] = ...\<close> for each item.  The tuple of
  multi-valued keys is the local \<^verbatim>\<open>multivalue\<close>.
\<close>

definition initial_item ::
  "string list \<Rightarrow> string \<times> string list \<Rightarrow> (string \<rightharpoonup> initial_value) \<Rightarrow>
   (string \<rightharpoonup> initial_value)" where
  "initial_item mv item initial =
     (case item of (key, vals) \<Rightarrow>
        (if key \<in> set mv then initial(key \<mapsto> Values vals)
         else initial(key \<mapsto> Text (join [CHR 0x0A] vals))))"

definition metadata_to_initial ::
  "(string \<times> string list) list \<Rightarrow> string list \<Rightarrow> (string \<rightharpoonup> initial_value)" where
  "metadata_to_initial info mv = fold (initial_item mv) info Map.empty"

text \<open>
  A value of \<^verbatim>\<open>form.cleaned_data\<close>: a string (\<^verbatim>\<open>basestring\<close>), an object with
  \<^verbatim>\<open>__iter__\<close> (its contents, in order), or anything else (\<^verbatim>\<open>None\<close>, a number).
\<close>

datatype cleaned_value = Str string | Iter "string list" | Other

text \<open>
  \<^verbatim>\<open>MultiValueDict.setlist(key, list)\<close> on the items of the dictionary: the list of an
  existing key is replaced, a new key is added.  \<^verbatim>\<open>d[key] = value\<close> is
  \<^verbatim>\<open>setlist(key, [value])\<close>.
\<close>

fun setlist :: "string \<Rightarrow> string list \<Rightarrow> (string \<times> string list) list \<Rightarrow>
    (string \<times> string list) list" where
  "setlist key vals [] = [(key, vals)]"
| "setlist key vals (item # items) =
     (if fst item = key then (key, vals) # items else item # setlist key vals items)"

text \<open>
  The loop of \<^verbatim>\<open>manage_metadata\<close> over \<^verbatim>\<open>form.cleaned_data.iteritems()\<close>; a value that is
  neither a string nor iterable changes nothing.
\<close>

fun cleaned_item :: "string \<times> cleaned_value \<Rightarrow> (string \<times> string list) list \<Rightarrow>
    (string \<times> string list) list" where
  "cleaned_item (key, Str x) info = setlist key [x] info"
| "cleaned_item (key, Iter xs) info = setlist key xs info"
| "cleaned_item (key, Other) info = info"

text \<open>\<^verbatim>\<open>release.save()\<close>: the row with the primary key of the release is rewritten.\<close>

definition Release_save :: "release \<Rightarrow> store \<Rightarrow> store" where
  "Release_save r s =
     (if rel_id r \<in> rel_id ` set (releases s)
      then s\<lparr>releases := map (\<lambda>x. if rel_id x = rel_id r then r else x) (releases s)\<rparr>
      else s\<lparr>releases := releases s @ [r]\<rparr>)"

text \<open>
  The valid-form branch of \<^verbatim>\<open>manage_metadata\<close>: the loop over the cleaned data, then
  \<^verbatim>\<open>release.save()\<close>.  It returns the release as changed and the store as written.
\<close>

definition apply_form_result ::
  "(string \<times> cleaned_value) list \<Rightarrow> release \<Rightarrow> store \<Rightarrow> release \<times> store" where
  "apply_form_result cleaned r s =
     (let r' = r\<lparr>package_info := fold cleaned_item cleaned (package_info r)\<rparr>
      in (r', Release_save r' s))"

text \<open>
  \<^verbatim>\<open>userpypi.utils.get_class\<close>.  \<open>import_module\<close> stands for the interpreter's module
  table: the names a module defines, or nothing when the import fails.
\<close>

definition rindex :: "string \<Rightarrow> char \<Rightarrow> nat option" where
  "rindex s c =
     (case filter (\<lambda>i. s ! i = c) (rev [0..<length s]) of [] \<Rightarrow> None | i # is \<Rightarrow> Some i)"

definition get_class :: "(string \<Rightarrow> (string \<rightharpoonup> 'f) option) \<Rightarrow> string \<Rightarrow> error + 'f" where
  "get_class import_module import_path =
     (case rindex import_path CHR ''.'' of
        None \<Rightarrow> Inl (ImproperlyConfigured (import_path @ '' is not a valid python path''))
      | Some dot \<Rightarrow>
          (case import_module (take dot import_path) of
             None \<Rightarrow> Inl (ImproperlyConfigured ''Error importing module'')
           | Some names \<Rightarrow>
               (case names (drop (Suc dot) import_path) of
                  None \<Rightarrow> Inl (ImproperlyConfigured ''Module does not define the class'')
                | Some cls \<Rightarrow> Inr cls)))"

section \<open>Maintainer, version and file editors\<close>

text \<open>
  A request to a function view: its method, its user and the submitted data.  A form or
  a formset is unbound (made from the current rows only) or bound to submitted data; only a
  bound one can be valid, and only a bound one shows errors.
\<close>

record 'd request =
  req_method :: string
  req_user :: user
  req_POST :: 'd

datatype 'd form = Unbound | Bound 'd

fun form_errors :: "('d \<Rightarrow> string list) \<Rightarrow> 'd form \<Rightarrow> string list" where
  "form_errors errs Unbound = []"
| "form_errors errs (Bound d) = errs d"

text \<open>
  A view is called with keyword arguments, \<^verbatim>\<open>view(request, **kw)\<close>.  Each parameter the
  \<^verbatim>\<open>def\<close> names takes its keyword, and \<^verbatim>\<open>**kwargs\<close> receives the others: \<open>drop_keys\<close>
  with the named parameters.  \<open>dict_pop\<close> is \<^verbatim>\<open>kwargs.pop(key)\<close> with no default,
  \<open>dict_get\<close> is what \<^verbatim>\<open>kwargs.setdefault(key, d)\<close> leaves under the key.
\<close>

type_synonym kwargs = "string \<rightharpoonup> string"

definition drop_keys :: "string list \<Rightarrow> kwargs \<Rightarrow> kwargs" where
  "drop_keys ks m = (\<lambda>k. if k \<in> set ks then None else m k)"

definition dict_pop :: "string \<Rightarrow> kwargs \<Rightarrow> error + kwargs" where
  "dict_pop key m =
     (case m key of None \<Rightarrow> Inl (KeyError key) | Some x \<Rightarrow> Inr (m(key := None)))"

definition dict_get :: "string \<Rightarrow> string \<Rightarrow> kwargs \<Rightarrow> string" where
  "dict_get key d m = (case m key of None \<Rightarrow> d | Some x \<Rightarrow> x)"

text \<open>\<^verbatim>\<open>get_object_or_404\<close> on the rows a filter selected.\<close>

fun get_object_or_404 :: "string \<Rightarrow> 'a list \<Rightarrow> error + 'a" where
  "get_object_or_404 m [] = Inl (Http404 (''No '' @ m @ '' matches the given query.''))"
| "get_object_or_404 m [x] = Inr x"
| "get_object_or_404 m (x # y # ys) = Inl (MultipleObjectsReturned m)"

text \<open>
  Modelled from the spec: \<^verbatim>\<open>Package.get_release\<close> of the models module, which is not
  among the sources.  A release has a version identifier unique per package; the views
  test the result with \<^verbatim>\<open>if not release\<close>, so a missing version gives \<^verbatim>\<open>None\<close>.
\<close>

definition get_release :: "store \<Rightarrow> package \<Rightarrow> string \<Rightarrow> release option" where
  "get_release s p version =
     find (\<lambda>r. rel_package r = pkg_id p \<and> rel_version r = version) (releases s)"

text \<open>
  The first statements of the four release editors, the same in each:
  \<^verbatim>\<open>get_object_or_404(Package, owner=request.user, name=package).get_release(version)\<close>,
  then \<^verbatim>\<open>Http404\<close> when there is no such release.
\<close>

definition requester_package :: "'d request \<Rightarrow> string \<Rightarrow> store \<Rightarrow> error + package" where
  "requester_package request package s =
     get_object_or_404 ''Package''
       (filter (\<lambda>p. pkg_owner p = uid (req_user request) \<and> pkg_name p = package)
          (packages s))"

definition requester_release ::
  "'d request \<Rightarrow> string \<Rightarrow> string \<Rightarrow> store \<Rightarrow> error + release" where
  "requester_release request package version s =
     (case requester_package request package s of
        Inl e \<Rightarrow> Inl e
      | Inr p \<Rightarrow>
          (case get_release s p version of
             None \<Rightarrow> Inl (Http404 (''Version '' @ version @ '' does not exist for '' @ package))
           | Some r \<Rightarrow> Inr r))"

text \<open>
  \<^verbatim>\<open>manage\<close> of releases.py.  \<^verbatim>\<open>owner\<close> is a named parameter, so \<^verbatim>\<open>kwargs\<close> never holds
  it and the first statement, \<^verbatim>\<open>kwargs.pop('owner')\<close>, has nothing to pop.
  \<open>update_object\<close> is the generic view the function ends in; it gets the keyword
  arguments with their defaults and the primary key of the release.
\<close>

definition releases_manage ::
  "('d request \<Rightarrow> kwargs \<Rightarrow> nat \<Rightarrow> store \<Rightarrow> (error + 'r) \<times> store) \<Rightarrow>
   'd request \<Rightarrow> kwargs \<Rightarrow> store \<Rightarrow> (error + 'r) \<times> store" where
  "releases_manage update_object request kw s =
     (case (kw ''owner'', kw ''package'', kw ''version'') of
        (Some owner_arg, Some package, Some version) \<Rightarrow>
          (case dict_pop ''owner'' (drop_keys [''owner'', ''package'', ''version''] kw) of
             Inl e \<Rightarrow> (Inl e, s)
           | Inr kwargs \<Rightarrow>
               (case requester_release request package version s of
                  Inl e \<Rightarrow> (Inl e, s)
                | Inr r \<Rightarrow>
                    update_object request
                      (kwargs(''template_name'' \<mapsto>
                                dict_get ''template_name'' ''userpypi/release_manage.html'' kwargs,
                              ''template_object_name'' \<mapsto>
                                dict_get ''template_object_name'' ''release'' kwargs))
                      (rel_id r) s))
      | _ \<Rightarrow> (Inl (TypeError ''manage''), s))"

text \<open>The context of an editor's page: the object edited and the form or formset.\<close>

record ('o, 'd) edit_context =
  ctx_instance :: 'o
  ctx_form :: "'d form"

text \<open>
  \<^verbatim>\<open>manage_metadata\<close> of releases.py.  A form class is its cleaning function: the errors of
  the submitted data, or the cleaned data.  \<open>redirect_to\<close> is \<^verbatim>\<open>create_update.redirect\<close>
  up to the URL it builds from the configured location and the object.
\<close>

definition manage_metadata ::
  "settings \<Rightarrow> (string \<Rightarrow> (string \<rightharpoonup> ('d \<Rightarrow> string list + (string \<times> cleaned_value) list)) option) \<Rightarrow>
   (string option \<Rightarrow> release \<Rightarrow> string) \<Rightarrow> 'd request \<Rightarrow> kwargs \<Rightarrow> store \<Rightarrow>
   (error + (release \<times> (string \<rightharpoonup> initial_value), 'd) edit_context response) \<times> store" where
  "manage_metadata cfg import_module redirect_to request kw s =
     (case (kw ''owner'', kw ''package'', kw ''version'') of
        (Some owner_arg, Some package, Some version) \<Rightarrow>
          (case dict_pop ''owner'' (drop_keys [''owner'', ''package'', ''version''] kw) of
             Inl e \<Rightarrow> (Inl e, s)
           | Inr kwargs \<Rightarrow>
               (case requester_release request package version s of
                  Inl e \<Rightarrow> (Inl e, s)
                | Inr r \<Rightarrow>
                    (case map_of (METADATA_FORMS cfg) (metadata_version r) of
                       None \<Rightarrow> (Inl (Http404 []), s)
                     | Some path \<Rightarrow>
                         (case get_class import_module path of
                            Inl e \<Rightarrow> (Inl e, s)
                          | Inr form_class \<Rightarrow>
                              (let initial = metadata_to_initial (package_info r) multivalue;
                                   page = (\<lambda>f r'. TemplateResponse
                                     [dict_get ''template_name'' ''userpypi/release_manage.html''
                                        kwargs]
                                     (Some (dict_get ''mimetype'' (DEFAULT_CONTENT_TYPE cfg)
                                        kwargs))
                                     \<lparr>ctx_instance = (r', initial), ctx_form = f\<rparr>)
                               in if req_method request = ''POST'' then
                                    (case form_class (req_POST request) of
                                       Inr cleaned \<Rightarrow>
                                         (case apply_form_result cleaned r s of
                                            (r', s') \<Rightarrow>
                                              (Inr (HttpResponseRedirect
                                                 (redirect_to (kwargs ''post_save_redirect'') r')),
                                               s'))
                                     | Inl errs \<Rightarrow>
                                         (Inr (page (Bound (req_POST request)) r), s))
                                  else (Inr (page Unbound r), s))))))
      | _ \<Rightarrow> (Inl (TypeError ''manage_metadata''), s))"

text \<open>
  A formset class, as \<^verbatim>\<open>inlineformset_factory\<close> makes it or as the caller passes it in
  \<^verbatim>\<open>kwargs\<close>: the errors of submitted rows against the parent instance (valid when there
  are none), and what \<^verbatim>\<open>formset.save()\<close> writes.
\<close>

record ('d, 'i) formset_factory =
  formset_errors :: "'d \<Rightarrow> 'i \<Rightarrow> store \<Rightarrow> string list"
  formset_save :: "'d \<Rightarrow> 'i \<Rightarrow> store \<Rightarrow> store"

text \<open>
  \<^verbatim>\<open>manage_files\<close> of releases.py.  An invalid formset is rendered as submitted (the
  \<^verbatim>\<open>else\<close> keeps the unbound one for other methods only); a valid one is saved and a
  fresh one rendered.  The upload form beside it is always unbound.
\<close>

definition manage_files ::
  "settings \<Rightarrow> ('d, release) formset_factory \<Rightarrow> 'd request \<Rightarrow> kwargs \<Rightarrow> store \<Rightarrow>
   (error + ((release, 'd) edit_context \<times> 'd form) response) \<times> store" where
  "manage_files cfg factory request kw s =
     (case (kw ''package'', kw ''version'') of
        (Some package, Some version) \<Rightarrow>
          (let kwargs = drop_keys [''package'', ''version''] kw in
           case requester_release request package version s of
             Inl e \<Rightarrow> (Inl e, s)
           | Inr r \<Rightarrow>
               (let page = (\<lambda>f. TemplateResponse
                      [dict_get ''template_name'' ''userpypi/release_manage_files.html'' kwargs]
                      (Some (dict_get ''mimetype'' (DEFAULT_CONTENT_TYPE cfg) kwargs))
                      (\<lparr>ctx_instance = r, ctx_form = f\<rparr>, Unbound))
                in if req_method request = ''POST'' then
                     (if formset_errors factory (req_POST request) r s = []
                      then (Inr (page Unbound), formset_save factory (req_POST request) r s)
                      else (Inr (page (Bound (req_POST request))), s))
                   else (Inr (page Unbound), s)))
      | _ \<Rightarrow> (Inl (TypeError ''manage_files''), s))"

text \<open>
  \<^verbatim>\<open>dist.save()\<close> of a new distribution: a row with a fresh primary key.
\<close>

definition Distribution_save :: "distribution \<Rightarrow> store \<Rightarrow> store" where
  "Distribution_save d s =
     s\<lparr>distributions := distributions s @
          [d\<lparr>dist_id := Suc (fold max (map dist_id (distributions s)) 0)\<rparr>]\<rparr>"

text \<open>
  \<^verbatim>\<open>upload_file\<close> of releases.py.  The upload form gives its errors or the distribution
  of \<^verbatim>\<open>form.save(commit=False)\<close>; \<open>reverse\<close> is the URL resolver.
\<close>

definition upload_file ::
  "settings \<Rightarrow> ('d \<Rightarrow> string list + distribution) \<Rightarrow>
   (string \<Rightarrow> (string \<times> string) list \<Rightarrow> string) \<Rightarrow> (string option \<Rightarrow> release \<Rightarrow> string) \<Rightarrow>
   'd request \<Rightarrow> kwargs \<Rightarrow> store \<Rightarrow>
   (error + (release, 'd) edit_context response) \<times> store" where
  "upload_file cfg form_factory reverse redirect_to request kw s =
     (case (kw ''package'', kw ''version'') of
        (Some package, Some version) \<Rightarrow>
          (let kwargs = drop_keys [''package'', ''version''] kw in
           case requester_release request package version s of
             Inl e \<Rightarrow> (Inl e, s)
           | Inr r \<Rightarrow>
               (let post_save_redirect = dict_get ''post_save_redirect''
                      (reverse ''userpypi-release-manage-files''
                         [(''package'', package), (''version'', version)]) kwargs;
                    page = (\<lambda>f. TemplateResponse
                      [dict_get ''template_name'' ''userpypi/release_upload_file.html'' kwargs]
                      (Some (dict_get ''mimetype'' (DEFAULT_CONTENT_TYPE cfg) kwargs))
                      \<lparr>ctx_instance = r, ctx_form = f\<rparr>)
                in if req_method request = ''POST'' then
                     (case form_factory (req_POST request) of
                        Inr dist \<Rightarrow>
                          (Inr (HttpResponseRedirect (redirect_to (Some post_save_redirect) r)),
                           Distribution_save
                             (dist\<lparr>dist_release := rel_id r,
                                   dist_uploader := uid (req_user request)\<rparr>) s)
                      | Inl errs \<Rightarrow> (Inr (page (Bound (req_POST request))), s))
                   else (Inr (page Unbound), s)))
      | _ \<Rightarrow> (Inl (TypeError ''upload_file''), s))"

text \<open>
  \<^verbatim>\<open>manage_versions\<close> of packages.py.  \<^verbatim>\<open>owner\<close> is not a named parameter here, so
  \<^verbatim>\<open>kwargs.pop('owner')\<close> finds it when the route gave one.  After the \<^verbatim>\<open>if\<close> there is
  no \<^verbatim>\<open>else\<close>: when the submitted formset is invalid the function goes on to
  \<^verbatim>\<open>formset = kwargs['formset_factory'](**kwargs['formset_kwargs'])\<close> and renders that
  unbound formset.
\<close>

definition manage_versions ::
  "settings \<Rightarrow> ('d, package) formset_factory \<Rightarrow> (string option \<Rightarrow> package \<Rightarrow> string) \<Rightarrow>
   'd request \<Rightarrow> kwargs \<Rightarrow> store \<Rightarrow>
   (error + (package, 'd) edit_context response) \<times> store" where
  "manage_versions cfg factory redirect_to request kw s =
     (case kw ''package'' of
        Some package \<Rightarrow>
          (case dict_pop ''owner'' (drop_keys [''package''] kw) of
             Inl e \<Rightarrow> (Inl e, s)
           | Inr kwargs \<Rightarrow>
               (case requester_package request package s of
                  Inl e \<Rightarrow> (Inl e, s)
                | Inr p \<Rightarrow>
                    (if req_method request = ''POST'' \<and>
                        formset_errors factory (req_POST request) p s = []
                     then (Inr (HttpResponseRedirect
                                  (redirect_to (kwargs ''post_save_redirect'') p)),
                           formset_save factory (req_POST request) p s)
                     else (Inr (TemplateResponse
                             [dict_get ''template_name''
                                ''userpypi/package_manage_versions.html'' kwargs]
                             (Some (dict_get ''mimetype'' (DEFAULT_CONTENT_TYPE cfg) kwargs))
                             \<lparr>ctx_instance = p, ctx_form = Unbound\<rparr>), s))))
      | None \<Rightarrow> (Inl (TypeError ''manage_versions''), s))"

text \<open>
  \<^verbatim>\<open>manage\<close> of packages.py.  The package form gives its errors against the instance
  and, by \<^verbatim>\<open>form.save(commit=False)\<close>, the instance with the submitted fields, not yet
  written; \<^verbatim>\<open>obj.save()\<close> writes it.  \<^verbatim>\<open>maintainer_formset\<close> is assigned only after the
  package form validated, and the page at the end reads it.
\<close>

record 'd package_form =
  package_form_errors :: "'d \<Rightarrow> package \<Rightarrow> string list"
  package_form_save :: "'d \<Rightarrow> package \<Rightarrow> package"

record 'd manage_context =
  ctx_package_form :: "'d form"
  ctx_maintainer_formset :: "'d form"
  ctx_package :: package

definition Package_save :: "package \<Rightarrow> store \<Rightarrow> store" where
  "Package_save obj s =
     (if pkg_id obj \<in> pkg_id ` set (packages s)
      then s\<lparr>packages := map (\<lambda>p. if pkg_id p = pkg_id obj then obj else p) (packages s)\<rparr>
      else s\<lparr>packages := packages s @ [obj]\<rparr>)"

definition packages_manage ::
  "'d package_form \<Rightarrow> ('d, package) formset_factory \<Rightarrow> (string \<Rightarrow> string \<Rightarrow> package \<Rightarrow> string) \<Rightarrow>
   'd request \<Rightarrow> string \<Rightarrow> string \<Rightarrow> store \<Rightarrow>
   (error + 'd manage_context response) \<times> store" where
  "packages_manage PackageForm MaintainerFormSet reverse request owner_arg package s =
     (case get_object_or_404 ''Package''
             (filter (\<lambda>p. (case package_owner s p of
                              None \<Rightarrow> False
                            | Some u \<Rightarrow> username u = owner_arg) \<and> pkg_name p = package)
                (packages s)) of
        Inl e \<Rightarrow> (Inl e, s)
      | Inr obj \<Rightarrow>
          (if req_method request = ''POST'' then
             (if package_form_errors PackageForm (req_POST request) obj = [] then
                (let obj' = package_form_save PackageForm (req_POST request) obj in
                 if formset_errors MaintainerFormSet (req_POST request) obj' s = [] then
                   (Inr (HttpResponseRedirect
                           (reverse ''userpypi-package-manage'' owner_arg obj')),
                    formset_save MaintainerFormSet (req_POST request) obj'
                      (Package_save obj' s))
                 else
                   (Inr (TemplateResponse [''userpypi/package_manage.html''] None
                           \<lparr>ctx_package_form = Bound (req_POST request),
                            ctx_maintainer_formset = Bound (req_POST request),
                            ctx_package = obj'\<rparr>), s))
              else (Inl (UnboundLocalError ''maintainer_formset''), s))
           else
             (Inr (TemplateResponse [''userpypi/package_manage.html''] None
                     \<lparr>ctx_package_form = Unbound, ctx_maintainer_formset = Unbound,
                      ctx_package = obj\<rparr>), s)))"

section \<open>The specification's predicate, and an example index\<close>

text \<open>
  The visibility rule in the specification's words: the owner sees every package of
  theirs, anyone sees every package of an organization, and anyone else sees the packages
  of the owner that are not private.
\<close>

definition visibility_predicate :: "user \<Rightarrow> user \<Rightarrow> package \<Rightarrow> bool" where
  "visibility_predicate requester ow p =
     (if user_eq requester ow then pkg_owner p = uid ow
      else if organization ow then pkg_owner p = uid ow
      else pkg_owner p = uid ow \<and> \<not> pkg_private p)"

text \<open>
  A small index: two people and an organization, two packages of bob (one private), one
  private package of the organization, one release each of \<open>foo\<close> and \<open>tool\<close>.
\<close>

definition alice :: user where
  "alice = \<lparr>uid = 1, username = ''alice'', organization = False\<rparr>"

definition bob :: user where
  "bob = \<lparr>uid = 2, username = ''bob'', organization = False\<rparr>"

definition acme :: user where
  "acme = \<lparr>uid = 3, username = ''acme'', organization = True\<rparr>"

definition foo :: package where
  "foo = \<lparr>pkg_id = 10, pkg_owner = 2, pkg_name = ''foo'', pkg_private = False\<rparr>"

definition secret :: package where
  "secret = \<lparr>pkg_id = 11, pkg_owner = 2, pkg_name = ''secret'', pkg_private = True\<rparr>"

definition tool :: package where
  "tool = \<lparr>pkg_id = 12, pkg_owner = 3, pkg_name = ''tool'', pkg_private = True\<rparr>"

definition foo_1_0 :: release where
  "foo_1_0 = \<lparr>rel_id = 100, rel_package = 10, rel_version = ''1.0'', rel_private = False,
     rel_hidden = False, metadata_version = ''1.0'',
     package_info = [(''classifier'', [''A'', ''B'']), (''summary'', [''x'', ''y'']),
                     (''name'', [''foo''])]\<rparr>"

definition tool_1_0 :: release where
  "tool_1_0 = \<lparr>rel_id = 101, rel_package = 12, rel_version = ''1.0'', rel_private = False,
     rel_hidden = False, metadata_version = ''1.0'', package_info = []\<rparr>"

definition index :: store where
  "index = \<lparr>users = [alice, bob, acme], packages = [foo, secret, tool],
     releases = [foo_1_0, tool_1_0], distributions = [], user_queries = 0\<rparr>"

text \<open>Settings with the proxy fallback on and a base URL that ends in a slash.\<close>

definition proxy_settings :: settings where
  "proxy_settings = \<lparr>PROXY_MISSING = True, PROXY_BASE_URL = ''http://pypi.python.org/simple/'',
     METADATA_FORMS = [(''1.0'', ''userpypi.forms.Metadata10Form'')],
     DEFAULT_CONTENT_TYPE = ''text/html''\<rparr>"

text \<open>
  A formset over the \<^verbatim>\<open>hidden\<close> flag of the releases of a package, as the version editor
  uses by default: a row names a release by its primary key and gives the flag; a row whose
  release is not one of the package's is an error; saving writes the flags.
\<close>

definition hidden_row_errors :: "package \<Rightarrow> store \<Rightarrow> nat \<times> bool \<Rightarrow> string list" where
  "hidden_row_errors p s row =
     (if list_ex (\<lambda>r. rel_package r = pkg_id p \<and> rel_id r = fst row) (releases s)
      then [] else [''Select a valid choice.''])"

definition hidden_formset :: "((nat \<times> bool) list, package) formset_factory" where
  "hidden_formset =
     \<lparr>formset_errors = (\<lambda>rows p s. concat (map (hidden_row_errors p s) rows)),
      formset_save = (\<lambda>rows p s.
        s\<lparr>releases := map (\<lambda>r. if rel_package r = pkg_id p
                                   then (case map_of rows (rel_id r) of
                                           None \<Rightarrow> r
                                         | Some h \<Rightarrow> r\<lparr>rel_hidden := h\<rparr>)
                                   else r) (releases s)\<rparr>)\<rparr>"

text \<open>The object's own URL when no location is configured, for the examples.\<close>

fun configured_or :: "string \<Rightarrow> string option \<Rightarrow> 'a \<Rightarrow> string" where
  "configured_or d None obj = d"
| "configured_or d (Some url) obj = url"

section \<open>Properties\<close>

lemmas index_defs =
  alice_def bob_def acme_def foo_def secret_def tool_def foo_1_0_def tool_1_0_def index_def

lemma OwnerObjectMixin_get_owner_frame:
  assumes "OwnerObjectMixin_get_owner v s = (r, v', s')"
  shows "request_user v' = request_user v \<and> kwargs_package v' = kwargs_package v \<and>
         redirect v' = redirect v \<and> kwargs_doap v' = kwargs_doap v \<and>
         users s' = users s \<and> packages s' = packages s \<and> releases s' = releases s"
  using assms
  by (auto simp: OwnerObjectMixin_get_owner_def User_objects_get_def
           split: option.splits sum.splits prod.splits)

lemma OwnerObjectMixin_get_owner_cached:
  assumes "OwnerObjectMixin_get_owner v s = (Inr got, v', s')"
  shows "owner v' = got"
  using assms
  by (auto simp: OwnerObjectMixin_get_owner_def split: option.splits sum.splits prod.splits)

lemma OwnerObjectMixin_get_queryset_resolved:
  assumes "OwnerObjectMixin_get_owner v s = (Inr (Some ow), v', s')"
  shows "OwnerObjectMixin_get_queryset v s =
           (Inr (filter (visibility_predicate (request_user v) ow) (packages s)), v', s')"
proof -
  have o: "owner v' = Some ow"
    using assms by (rule OwnerObjectMixin_get_owner_cached)
  have f: "request_user v' = request_user v" "packages s' = packages s"
    using OwnerObjectMixin_get_owner_frame [OF assms] by simp_all
  show ?thesis
    by (simp add: OwnerObjectMixin_get_queryset_def assms o f visibility_predicate_def
          cong: filter_cong)
qed

text \<open>
  Claim C1.  When the owner is resolved, the queryset of the package views holds exactly
  the packages in the store that the visibility rule admits for the requester: every
  package of the owner when the requester is the owner, every package of the owner when
  the owner is an organization, and otherwise the packages of the owner that are not
  private.
\<close>

theorem package_visibility:
  assumes "OwnerObjectMixin_get_owner v s = (Inr (Some ow), v', s')"
  shows "OwnerObjectMixin_get_queryset v s =
           (Inr (filter (visibility_predicate (request_user v) ow) (packages s)), v', s')"
  using assms by (rule OwnerObjectMixin_get_queryset_resolved)

text \<open>
  Alice lists the packages of bob, who is not an organization: she gets \<open>foo\<close> and not
  the private \<open>secret\<close>.
\<close>

theorem package_visibility_witness:
  "OwnerObjectMixin_get_owner (new_view alice (Some ''bob'') None None None) index =
     (Inr (Some bob), (new_view alice (Some ''bob'') None None None)\<lparr>owner := Some bob\<rparr>,
      index\<lparr>user_queries := 1\<rparr>) \<and>
   OwnerObjectMixin_get_queryset (new_view alice (Some ''bob'') None None None) index =
     (Inr [foo], (new_view alice (Some ''bob'') None None None)\<lparr>owner := Some bob\<rparr>,
      index\<lparr>user_queries := 1\<rparr>)"
proof -
  have h: "OwnerObjectMixin_get_owner (new_view alice (Some ''bob'') None None None) index =
     (Inr (Some bob), (new_view alice (Some ''bob'') None None None)\<lparr>owner := Some bob\<rparr>,
      index\<lparr>user_queries := 1\<rparr>)"
    by (simp add: OwnerObjectMixin_get_owner_def User_objects_get_def new_view_def index_defs)
  show ?thesis
    using h package_visibility [OF h]
    by (simp add: visibility_predicate_def user_eq_def new_view_def index_defs)
qed

text \<open>
  Claim C2.  On the code the claim fails: when the requester is the owner, the queryset
  of the release views is not the owner's releases but an \<^verbatim>\<open>UnboundLocalError\<close>.  Bob
  asks for his own releases.
\<close>

theorem release_visibility_owner_fails:
  "fst (ReleaseOwnerObjectMixin_get_queryset (new_view bob (Some ''bob'') None None None) index)
     = Inl (UnboundLocalError ''params'')"
  by (simp add: ReleaseOwnerObjectMixin_get_queryset_def ReleaseOwnerObjectMixin_get_owner_def
        User_objects_get_def user_eq_def new_view_def index_defs)

text \<open>
  Claim C5.  With no owner cached and no owner in the path, the resolver of the package
  views succeeds with no owner and raises nothing, and the resolver of the release views
  raises \<^verbatim>\<open>Http404\<close>; with a username in the path that no user has, the resolver of the
  release views raises \<^verbatim>\<open>Http404\<close>.
\<close>

theorem owner_resolution_modes:
  assumes "owner v = None"
  shows "(kwargs_owner v = None \<longrightarrow>
            OwnerObjectMixin_get_owner v s = (Inr None, v, s) \<and>
            ReleaseOwnerObjectMixin_get_owner v s = (Inl (Http404 []), v, s)) \<and>
         (\<forall>name. kwargs_owner v = Some name \<and> name \<notin> username ` set (users s) \<longrightarrow>
            fst (ReleaseOwnerObjectMixin_get_owner v s) = Inl (Http404 []))"
proof -
  have e: "filter (\<lambda>u. username u = name) (users s) = []"
    if "name \<notin> username ` set (users s)" for name
    using that by (auto simp: filter_empty_conv)
  have u: "v\<lparr>owner := None\<rparr> = v"
    using assms by simp
  show ?thesis
    using assms
    by (auto simp: OwnerObjectMixin_get_owner_def ReleaseOwnerObjectMixin_get_owner_def
          User_objects_get_def e u)
qed

text \<open>
  Both resolvers without a path owner, and the release resolver with an unknown one.
\<close>

theorem owner_resolution_modes_witness:
  "OwnerObjectMixin_get_owner (new_view alice None None None None) index =
     (Inr None, new_view alice None None None None, index) \<and>
   ReleaseOwnerObjectMixin_get_owner (new_view alice None None None None) index =
     (Inl (Http404 []), new_view alice None None None None, index) \<and>
   fst (ReleaseOwnerObjectMixin_get_owner (new_view alice (Some ''nobody'') None None None) index)
     = Inl (Http404 [])"
proof -
  have a: "owner (new_view alice ko None None None) = None" for ko
    by (simp add: new_view_def)
  have n: "''nobody'' \<notin> username ` set (users index)"
    by (simp add: index_defs)
  show ?thesis
    using owner_resolution_modes [OF a, of None index]
      owner_resolution_modes [OF a, of "Some ''nobody''" index] n
    by (simp add: new_view_def)
qed

text \<open>
  Claim C9.  With an owner cached in the view, both resolvers return that owner and leave
  the view and the store as they were: the count of user lookups does not move.
\<close>

theorem owner_resolution_idempotent:
  assumes "owner v = Some u"
  shows "OwnerObjectMixin_get_owner v s = (Inr (Some u), v, s) \<and>
         ReleaseOwnerObjectMixin_get_owner v s = (Inr u, v, s)"
  using assms
  by (simp add: OwnerObjectMixin_get_owner_def ReleaseOwnerObjectMixin_get_owner_def)

text \<open>
  A view that has resolved bob resolves him again without a lookup.
\<close>

theorem owner_resolution_idempotent_witness:
  "OwnerObjectMixin_get_owner
     ((new_view alice (Some ''bob'') None None None)\<lparr>owner := Some bob\<rparr>) index =
     (Inr (Some bob), (new_view alice (Some ''bob'') None None None)\<lparr>owner := Some bob\<rparr>, index) \<and>
   ReleaseOwnerObjectMixin_get_owner
     ((new_view alice (Some ''bob'') None None None)\<lparr>owner := Some bob\<rparr>) index =
     (Inr bob, (new_view alice (Some ''bob'') None None None)\<lparr>owner := Some bob\<rparr>, index)"
proof -
  have h: "owner ((new_view alice (Some ''bob'') None None None)\<lparr>owner := Some bob\<rparr>) = Some bob"
    by simp
  show ?thesis
    using owner_resolution_idempotent [OF h, of index] by simp
qed

lemma OwnerObjectMixin_get_owner_again:
  assumes "OwnerObjectMixin_get_owner v s = (Inr (Some ow), v', s')"
  shows "OwnerObjectMixin_get_owner (v'\<lparr>redirect := x\<rparr>) s' = (Inr (Some ow), v'\<lparr>redirect := x\<rparr>, s')"
  using OwnerObjectMixin_get_owner_cached [OF assms]
  by (simp add: OwnerObjectMixin_get_owner_def)

lemma PackageDetailView_get_object_miss:
  assumes "OwnerObjectMixin_get_owner v s = (Inr (Some ow), v', s')"
    and "kwargs_package v = Some name"
    and "\<forall>p \<in> set (packages s). visibility_predicate (request_user v) ow p \<longrightarrow> pkg_name p \<noteq> name"
  shows "PackageDetailView_get_object cfg vn v s =
           package_miss cfg vn True (DoesNotExist ''Package'') v' s'"
proof -
  have k: "kwargs_package v' = Some name"
    using OwnerObjectMixin_get_owner_frame [OF assms(1)] assms(2) by simp
  have e: "filter (\<lambda>p. visibility_predicate (request_user v) ow p \<and> pkg_name p = name)
             (packages s) = []"
    using assms(3) by (auto simp: filter_empty_conv)
  show ?thesis
    by (simp add: PackageDetailView_get_object_def
          OwnerObjectMixin_get_queryset_resolved [OF assms(1)] k e)
qed

text \<open>
  Claim C3, as amended.  When the owner is resolved and no package visible to the
  requester has the name of the route: with \<^verbatim>\<open>PROXY_MISSING\<close> the detail view answers
  with a redirect to \<^verbatim>\<open>PROXY_BASE_URL\<close> without its trailing slashes, then \<^verbatim>\<open>/name/\<close>,
  and raises nothing; without it the view raises \<^verbatim>\<open>Http404\<close> with a message that names
  the kind of object missing.
\<close>

theorem locate_package_miss:
  assumes "OwnerObjectMixin_get_owner v s = (Inr (Some ow), v', s')"
    and "kwargs_package v = Some name"
    and "\<forall>p \<in> set (packages s). visibility_predicate (request_user v) ow p \<longrightarrow> pkg_name p \<noteq> name"
  shows "(PROXY_MISSING cfg \<longrightarrow>
            fst (PackageDetailView_get cfg vn v s) =
              Inr (HttpResponseRedirect
                     (rstrip CHR ''/'' (PROXY_BASE_URL cfg) @ ''/'' @ name @ ''/''))) \<and>
         (\<not> PROXY_MISSING cfg \<longrightarrow>
            fst (PackageDetailView_get cfg vn v s) =
              Inl (Http404 (''No '' @ vn @ '' found matching the query'')))"
proof -
  have k: "kwargs_package v' = Some name"
    using OwnerObjectMixin_get_owner_frame [OF assms(1)] assms(2) by simp
  show ?thesis
    by (simp add: PackageDetailView_get_def PackageDetailView_get_object_miss [OF assms]
          package_miss_def k OwnerObjectMixin_get_context_data_def
          OwnerObjectMixin_get_owner_again [OF assms(1)]
          PackageDetailView_render_to_response_def)
qed


text \<open>
  Alice asks for bob's private package \<open>secret\<close>, with the proxy fallback and without.
\<close>

theorem locate_package_miss_witness:
  "fst (PackageDetailView_get proxy_settings ''package''
          (new_view alice (Some ''bob'') (Some ''secret'') None None) index) =
     Inr (HttpResponseRedirect ''http://pypi.python.org/simple/secret/'') \<and>
   fst (PackageDetailView_get (proxy_settings\<lparr>PROXY_MISSING := False\<rparr>) ''package''
          (new_view alice (Some ''bob'') (Some ''secret'') None None) index) =
     Inl (Http404 ''No package found matching the query'')"
proof -
  let ?v = "new_view alice (Some ''bob'') (Some ''secret'') None None"
  have h: "OwnerObjectMixin_get_owner ?v index =
     (Inr (Some bob), ?v\<lparr>owner := Some bob\<rparr>, index\<lparr>user_queries := 1\<rparr>)"
    by (simp add: OwnerObjectMixin_get_owner_def User_objects_get_def new_view_def index_defs)
  have k: "kwargs_package ?v = Some ''secret''"
    by (simp add: new_view_def)
  have n: "\<forall>p \<in> set (packages index).
             visibility_predicate (request_user ?v) bob p \<longrightarrow> pkg_name p \<noteq> ''secret''"
    by (simp add: visibility_predicate_def user_eq_def new_view_def index_defs)
  show ?thesis
    using locate_package_miss [OF h k n, of proxy_settings "''package''"]
      locate_package_miss [OF h k n, of "proxy_settings\<lparr>PROXY_MISSING := False\<rparr>" "''package''"]
    by (simp add: proxy_settings_def rstrip_def)
qed

text \<open>
  Claim C3 as stated fails where \<^verbatim>\<open>PROXY_BASE_URL\<close> ends in a slash: the redirect goes to
  the base URL stripped of it, not to the base URL followed by \<^verbatim>\<open>/missing-name/\<close>.
\<close>

theorem locate_package_redirect_counterexample:
  "PROXY_MISSING proxy_settings \<and>
   fst (OwnerObjectMixin_get_queryset
          (new_view alice (Some ''bob'') (Some ''missing-name'') None None) index) = Inr [foo] \<and>
   pkg_name foo \<noteq> ''missing-name'' \<and>
   fst (PackageDetailView_get proxy_settings ''package''
          (new_view alice (Some ''bob'') (Some ''missing-name'') None None) index) =
     Inr (HttpResponseRedirect ''http://pypi.python.org/simple/missing-name/'') \<and>
   fst (PackageDetailView_get proxy_settings ''package''
          (new_view alice (Some ''bob'') (Some ''missing-name'') None None) index) \<noteq>
     Inr (HttpResponseRedirect (PROXY_BASE_URL proxy_settings @ ''/'' @ ''missing-name'' @ ''/''))"
  by (simp add: PackageDetailView_get_def PackageDetailView_get_object_def package_miss_def
        OwnerObjectMixin_get_queryset_def OwnerObjectMixin_get_owner_def User_objects_get_def
        OwnerObjectMixin_get_context_data_def PackageDetailView_render_to_response_def
        user_eq_def rstrip_def new_view_def proxy_settings_def
        index_defs)

text \<open>
  Claim C4.  On the code the claim fails: the lookup of the release detail view is scoped
  by the package name only.  Alice asks for version \<open>9.9\<close> of \<open>tool\<close>, which does not
  exist, and gets release \<open>1.0\<close> instead of \<^verbatim>\<open>Http404\<close>.
\<close>

theorem release_lookup_ignores_version:
  "kwargs_version (new_view alice (Some ''acme'') (Some ''tool'') (Some ''9.9'') None) = Some ''9.9'' \<and>
   get_release index tool ''9.9'' = None \<and>
   fst (ReleaseDetailView_get_object
          (new_view alice (Some ''acme'') (Some ''tool'') (Some ''9.9'') None) index) = Inr tool_1_0 \<and>
   rel_version tool_1_0 = ''1.0''"
  by (simp add: ReleaseDetailView_get_object_def ReleaseOwnerObjectMixin_get_queryset_def
        ReleaseOwnerObjectMixin_get_owner_def User_objects_get_def Release_objects_filter_def
        release_package_def package_owner_def get_release_def user_eq_def new_view_def
        index_defs)

lemma initial_item_apply:
  "initial_item mv (k, vals) m key =
     (if key = k then Some (if k \<in> set mv then Values vals else Text (join [CHR 0x0A] vals))
      else m key)"
  by (simp add: initial_item_def)

lemma fold_initial_item:
  "distinct (map fst info) \<Longrightarrow>
   fold (initial_item mv) info m key =
     (case map_of info key of
        None \<Rightarrow> m key
      | Some vals \<Rightarrow> Some (if key \<in> set mv then Values vals
                             else Text (join [CHR 0x0A] vals)))"
proof (induction info arbitrary: m)
  case Nil
  then show ?case by simp
next
  case (Cons item info)
  obtain k vals where item: "item = (k, vals)"
    by (cases item)
  from Cons.prems have fresh: "map_of info k = None"
    by (simp add: item map_of_eq_None_iff)
  from Cons.prems have d: "distinct (map fst info)"
    by simp
  show ?case
    using fresh by (auto simp: Cons.IH [OF d] item initial_item_apply split: option.splits)
qed

text \<open>
  Claim C6.  For a metadata dictionary (each key once): a key among the multi-valued keys
  is mapped to the list of its values unchanged, any other key to its values joined by
  newlines, and a key the dictionary does not have is absent.  The specification's example
  comes out as stated.
\<close>

theorem metadata_to_initial_values:
  assumes "distinct (map fst info)"
  shows "(\<forall>(key, vals) \<in> set info.
            metadata_to_initial info mv key =
              Some (if key \<in> set mv then Values vals else Text (join [CHR 0x0A] vals))) \<and>
         (\<forall>key. key \<notin> fst ` set info \<longrightarrow> metadata_to_initial info mv key = None) \<and>
         metadata_to_initial
           [(''classifier'', [''A'', ''B'']), (''summary'', [''x'', ''y''])] [''classifier''] =
           [''classifier'' \<mapsto> Values [''A'', ''B''],
            ''summary'' \<mapsto> Text (''x'' @ [CHR 0x0A] @ ''y'')]"
proof (intro conjI)
  show "\<forall>(key, vals) \<in> set info.
          metadata_to_initial info mv key =
            Some (if key \<in> set mv then Values vals else Text (join [CHR 0x0A] vals))"
    using assms by (auto simp: metadata_to_initial_def fold_initial_item)
  show "\<forall>key. key \<notin> fst ` set info \<longrightarrow> metadata_to_initial info mv key = None"
  proof (intro allI impI)
    fix key
    assume "key \<notin> fst ` set info"
    then have "map_of info key = None"
      by (simp add: map_of_eq_None_iff)
    then show "metadata_to_initial info mv key = None"
      using assms by (simp add: metadata_to_initial_def fold_initial_item)
  qed
  show "metadata_to_initial
          [(''classifier'', [''A'', ''B'']), (''summary'', [''x'', ''y''])] [''classifier''] =
          [''classifier'' \<mapsto> Values [''A'', ''B''],
           ''summary'' \<mapsto> Text (''x'' @ [CHR 0x0A] @ ''y'')]"
    by (simp add: metadata_to_initial_def initial_item_def)
qed

text \<open>
  The metadata of release \<open>1.0\<close> of \<open>foo\<close>, with the view's own tuple of multi-valued
  keys.
\<close>

theorem metadata_to_initial_values_witness:
  "distinct (map fst (package_info foo_1_0)) \<and>
   metadata_to_initial (package_info foo_1_0) multivalue ''classifier'' = Some (Values [''A'', ''B'']) \<and>
   metadata_to_initial (package_info foo_1_0) multivalue ''summary'' =
     Some (Text (''x'' @ [CHR 0x0A] @ ''y'')) \<and>
   metadata_to_initial (package_info foo_1_0) multivalue ''name'' = Some (Text ''foo'') \<and>
   metadata_to_initial (package_info foo_1_0) multivalue ''author'' = None"
proof -
  have d: "distinct (map fst (package_info foo_1_0))"
    by (simp add: foo_1_0_def)
  show ?thesis
    using d metadata_to_initial_values [OF d, of multivalue]
    by (simp add: foo_1_0_def multivalue_def)
qed

lemma map_of_setlist:
  "map_of (setlist key vals info) = (map_of info)(key \<mapsto> vals)"
  by (induction info) (auto simp: fun_eq_iff)

lemma map_of_cleaned_item:
  "map_of (cleaned_item (k, c) info) key =
     (if key = k then (case c of Str x \<Rightarrow> Some [x] | Iter xs \<Rightarrow> Some xs
                        | Other \<Rightarrow> map_of info key)
      else map_of info key)"
  by (cases c) (simp_all add: map_of_setlist)

lemma map_of_fold_cleaned_item:
  "distinct (map fst cleaned) \<Longrightarrow>
   map_of (fold cleaned_item cleaned info) key =
     (case map_of cleaned key of
        Some (Str x) \<Rightarrow> Some [x]
      | Some (Iter xs) \<Rightarrow> Some xs
      | Some Other \<Rightarrow> map_of info key
      | None \<Rightarrow> map_of info key)"
proof (induction cleaned arbitrary: info)
  case Nil
  then show ?case by simp
next
  case (Cons item cleaned)
  obtain k c where item: "item = (k, c)"
    by (cases item)
  from Cons.prems have fresh: "map_of cleaned k = None"
    by (simp add: item map_of_eq_None_iff)
  from Cons.prems have d: "distinct (map fst cleaned)"
    by simp
  show ?case
    using fresh
    by (simp add: Cons.IH [OF d] item map_of_cleaned_item
          split: option.splits cleaned_value.splits)
qed

lemma find_Release_save:
  "find (\<lambda>x. rel_id x = rel_id r) (releases (Release_save r s)) = Some r"
proof -
  have a: "find (\<lambda>x. rel_id x = rel_id r)
             (map (\<lambda>x. if rel_id x = rel_id r then r else x) rs) = Some r"
    if "rel_id r \<in> rel_id ` set rs" for rs
    using that by (induction rs) auto
  have b: "find (\<lambda>x. rel_id x = rel_id r) (rs @ [r]) = Some r"
    if "rel_id r \<notin> rel_id ` set rs" for rs
    using that by (induction rs) auto
  show ?thesis
    by (simp add: Release_save_def a b)
qed

lemma Release_save_frame:
  "users (Release_save r s) = users s \<and> packages (Release_save r s) = packages s \<and>
   distributions (Release_save r s) = distributions s \<and>
   filter (\<lambda>x. rel_id x \<noteq> rel_id r) (releases (Release_save r s)) =
     filter (\<lambda>x. rel_id x \<noteq> rel_id r) (releases s)"
proof -
  have "filter (\<lambda>x. rel_id x \<noteq> rel_id r)
          (map (\<lambda>x. if rel_id x = rel_id r then r else x) rs) =
        filter (\<lambda>x. rel_id x \<noteq> rel_id r) rs" for rs
    by (induction rs) auto
  then show ?thesis
    by (simp add: Release_save_def)
qed

text \<open>
  Claim C7.  For cleaned data (each field once): a field with a string value has exactly
  that string as its list of values afterwards, a field with an iterable value has the
  iterable's contents in order, every other key keeps its values; nothing else of the
  release changes.  The release is then written: the store holds the changed release under
  its primary key, and no other release row differs.
\<close>

theorem apply_form_result_replaces:
  assumes "distinct (map fst cleaned)"
    and "apply_form_result cleaned r s = (r', s')"
  shows "(\<forall>key. map_of (package_info r') key =
            (case map_of cleaned key of
               Some (Str x) \<Rightarrow> Some [x]
             | Some (Iter xs) \<Rightarrow> Some xs
             | Some Other \<Rightarrow> map_of (package_info r) key
             | None \<Rightarrow> map_of (package_info r) key)) \<and>
         r' = r\<lparr>package_info := package_info r'\<rparr> \<and>
         find (\<lambda>x. rel_id x = rel_id r) (releases s') = Some r' \<and>
         filter (\<lambda>x. rel_id x \<noteq> rel_id r) (releases s') =
           filter (\<lambda>x. rel_id x \<noteq> rel_id r) (releases s)"
proof -
  have r': "r' = r\<lparr>package_info := fold cleaned_item cleaned (package_info r)\<rparr>"
    and s': "s' = Release_save r' s"
    using assms(2) by (auto simp: apply_form_result_def Let_def)
  have i: "rel_id r' = rel_id r"
    by (simp add: r')
  show ?thesis
    using find_Release_save [of r' s] Release_save_frame [of r' s]
    by (simp add: s' i) (simp add: r' map_of_fold_cleaned_item [OF assms(1)])
qed

text \<open>
  The specification's example on release \<open>1.0\<close> of \<open>foo\<close>: \<open>summary\<close> and
  \<open>classifier\<close> are replaced, \<open>name\<close> is kept, and the row in the store is the new one.
\<close>

theorem apply_form_result_replaces_witness:
  "distinct (map fst [(''summary'', Str ''hello''), (''classifier'', Iter [''A'', ''C''])]) \<and>
   apply_form_result [(''summary'', Str ''hello''), (''classifier'', Iter [''A'', ''C''])]
       foo_1_0 index =
     (foo_1_0\<lparr>package_info := [(''classifier'', [''A'', ''C'']), (''summary'', [''hello'']),
                                (''name'', [''foo''])]\<rparr>,
      index\<lparr>releases :=
        [foo_1_0\<lparr>package_info := [(''classifier'', [''A'', ''C'']), (''summary'', [''hello'']),
                                   (''name'', [''foo''])]\<rparr>, tool_1_0]\<rparr>) \<and>
   map_of (package_info (fst (apply_form_result
       [(''summary'', Str ''hello''), (''classifier'', Iter [''A'', ''C''])] foo_1_0 index)))
     ''name'' = Some [''foo'']"
proof -
  have d: "distinct (map fst [(''summary'', Str ''hello''), (''classifier'', Iter [''A'', ''C''])])"
    by simp
  have a: "apply_form_result [(''summary'', Str ''hello''), (''classifier'', Iter [''A'', ''C''])]
       foo_1_0 index =
     (foo_1_0\<lparr>package_info := [(''classifier'', [''A'', ''C'']), (''summary'', [''hello'']),
                                (''name'', [''foo''])]\<rparr>,
      index\<lparr>releases :=
        [foo_1_0\<lparr>package_info := [(''classifier'', [''A'', ''C'']), (''summary'', [''hello'']),
                                   (''name'', [''foo''])]\<rparr>, tool_1_0]\<rparr>)"
    by (simp add: apply_form_result_def Release_save_def Let_def index_defs)
  show ?thesis
    using d a apply_form_result_replaces [OF d a]
    by (simp add: foo_1_0_def)
qed

text \<open>
  Claim C8.  On the code the claim fails in the version editor: bob submits two rows for
  \<open>foo\<close>, one of them for a release that is not the package's.  The batch has an error and
  nothing is written, but the page rendered carries a fresh unbound formset, which shows no
  error, instead of the submitted one.
\<close>

theorem manage_versions_invalid_loses_errors:
  "formset_errors hidden_formset [(100, True), (999, True)] foo index = [''Select a valid choice.''] \<and>
   manage_versions proxy_settings hidden_formset (configured_or ''/bob/foo/'')
       \<lparr>req_method = ''POST'', req_user = bob, req_POST = [(100, True), (999, True)]\<rparr>
       [''owner'' \<mapsto> ''bob'', ''package'' \<mapsto> ''foo''] index =
     (Inr (TemplateResponse [''userpypi/package_manage_versions.html''] (Some ''text/html'')
             \<lparr>ctx_instance = foo, ctx_form = Unbound\<rparr>), index) \<and>
   form_errors (\<lambda>d. formset_errors hidden_formset d foo index) Unbound = []"
  by (simp add: manage_versions_def dict_pop_def drop_keys_def dict_get_def
        requester_package_def hidden_formset_def hidden_row_errors_def proxy_settings_def
        index_defs)


text \<open>
  Claim C10.  On the code the claim fails in two of the five editors: alice, who owns no
  package \<open>foo\<close>, calls them on bob's.  The version editor, the file editor and the upload
  raise \<^verbatim>\<open>Http404\<close>, as the claim says; \<^verbatim>\<open>manage\<close> and \<^verbatim>\<open>manage_metadata\<close> of releases.py
  raise \<^verbatim>\<open>KeyError\<close> in their first statement, whatever the collaborators are.
\<close>

theorem release_editors_pop_owner:
  "fst (releases_manage update_object
          \<lparr>req_method = ''GET'', req_user = alice, req_POST = ()\<rparr>
          [''owner'' \<mapsto> ''bob'', ''package'' \<mapsto> ''foo'', ''version'' \<mapsto> ''1.0''] index) =
     Inl (KeyError ''owner'') \<and>
   fst (manage_metadata cfg import_module redirect_to
          \<lparr>req_method = ''GET'', req_user = alice, req_POST = ()\<rparr>
          [''owner'' \<mapsto> ''bob'', ''package'' \<mapsto> ''foo'', ''version'' \<mapsto> ''1.0''] index) =
     Inl (KeyError ''owner'') \<and>
   fst (manage_versions cfg factory redirect_to'
          \<lparr>req_method = ''GET'', req_user = alice, req_POST = ()\<rparr>
          [''owner'' \<mapsto> ''bob'', ''package'' \<mapsto> ''foo''] index) =
     Inl (Http404 ''No Package matches the given query.'') \<and>
   fst (manage_files cfg factory'
          \<lparr>req_method = ''GET'', req_user = alice, req_POST = ()\<rparr>
          [''owner'' \<mapsto> ''bob'', ''package'' \<mapsto> ''foo'', ''version'' \<mapsto> ''1.0''] index) =
     Inl (Http404 ''No Package matches the given query.'') \<and>
   fst (upload_file cfg form_factory reverse redirect_to
          \<lparr>req_method = ''GET'', req_user = alice, req_POST = ()\<rparr>
          [''owner'' \<mapsto> ''bob'', ''package'' \<mapsto> ''foo'', ''version'' \<mapsto> ''1.0''] index) =
     Inl (Http404 ''No Package matches the given query.'')"
  by (simp add: releases_manage_def manage_metadata_def manage_versions_def manage_files_def
        upload_file_def dict_pop_def drop_keys_def requester_release_def
        requester_package_def index_defs)

end
